theory Spec2Isabelle
  imports Main "HOL-Library.Sublist" "HOL-Library.Word"
begin

section \<open>Values, errors and panics\<close>

text \<open>
  A Go value of type \<open>any\<close>: the nil interface, or a value of some payload type.
\<close>

datatype 'a any = Nil | Val 'a

text \<open>
  Go \<open>error\<close> values returned by the session and by the data source.
  \<open>ErrEmptyData\<close> is the package-level error that \<open>Set\<close> returns for a nil data source.
\<close>

datatype goerror = ErrEmptyData | Err string

text \<open>
  A run-time panic: a method call on the nil \<open>DataFace\<close> interface, an index out of
  range, or a callable rejected at registration.
\<close>

datatype panic = NilDereference | IndexOutOfRange | InvalidValidatorFunc

type_synonym uint8 = "8 word"
type_synonym int8 = "8 word"

definition filterError :: string where
  "filterError = ''_filter''"

definition validateError :: string where
  "validateError = ''_validate''"

definition validatorTypeBuiltin :: int8 where
  "validatorTypeBuiltin = 1"

definition validatorTypeCustom :: int8 where
  "validatorTypeCustom = 2"

section \<open>The data source interface\<close>

text \<open>
  Modelled from the spec: the kinds of data source (\<open>sourceStruct\<close> and its siblings are
  declared outside \<open>validation.go\<close>); the spec lists struct-backed, map-backed and
  form-backed sources.
\<close>

datatype sourceType = sourceForm | sourceMap | sourceStruct

text \<open>
  The \<open>DataFace\<close> interface. Its implementations are external adapters, so the methods
  are taken as parameters over an abstract source state \<open>'d\<close>. \<open>Set\<close> may mutate the
  source, so it returns the new source state with its results. \<open>FuncValue\<close> is the method
  lookup of the struct-backed adapter (\<open>'f\<close> stands for \<open>reflect.Value\<close>).
\<close>

record ('d, 'a, 'f) DataFace =
  data_Type :: "'d \<Rightarrow> sourceType"
  data_Get :: "'d \<Rightarrow> string \<Rightarrow> 'a any \<times> bool"
  data_TryGet :: "'d \<Rightarrow> string \<Rightarrow> 'a any \<times> bool \<times> bool"
  data_Set :: "'d \<Rightarrow> string \<Rightarrow> 'a any \<Rightarrow> ('a any \<times> goerror option) \<times> 'd"
  data_FuncValue :: "'d \<Rightarrow> string \<Rightarrow> 'f option"

text \<open>
  A method call \<open>v.data.M(...)\<close> on the interface value \<open>v.data\<close>: it panics when the
  interface is nil.
\<close>

definition callData :: "'d option \<Rightarrow> ('d \<Rightarrow> 'b) \<Rightarrow> panic + 'b" where
  "callData d f = (case d of None \<Rightarrow> Inl NilDereference | Some x \<Rightarrow> Inr (f x))"

section \<open>Errors and the translator\<close>

text \<open>
  Modelled from the spec: the \<open>Errors\<close> collection and its \<open>Add\<close> (declared outside
  \<open>validation.go\<close>). The spec describes a mapping from field name to a mapping from
  validator name to message, which accumulates field/validator/message triples.
\<close>

type_synonym Errors = "string \<rightharpoonup> (string \<rightharpoonup> string)"

definition Errors_Add :: "string \<Rightarrow> string \<Rightarrow> string \<Rightarrow> Errors \<Rightarrow> Errors" where
  "Errors_Add field validator message es =
     (case es field of
        Some ms \<Rightarrow> es(field \<mapsto> ms(validator \<mapsto> message))
      | None \<Rightarrow> es(field \<mapsto> [validator \<mapsto> message]))"

text \<open>
  Modelled from the spec: the \<open>Translator\<close> (declared outside \<open>validation.go\<close>). It
  holds a label map and a message map; \<open>FieldName\<close> resolves a field's display name via
  the label map and falls back to the raw field name; both maps are extended
  incrementally, later additions overriding earlier ones for the same key.
\<close>

record Translator =
  labelMap :: "string \<rightharpoonup> string"
  messages :: "string \<rightharpoonup> string"

definition FieldName :: "Translator \<Rightarrow> string \<Rightarrow> string" where
  "FieldName t field = (case labelMap t field of Some trName \<Rightarrow> trName | None \<Rightarrow> field)"

definition AddLabelMap :: "(string \<rightharpoonup> string) \<Rightarrow> Translator \<Rightarrow> Translator" where
  "AddLabelMap m t = t\<lparr>labelMap := labelMap t ++ m\<rparr>"

definition Translator_AddMessages :: "(string \<rightharpoonup> string) \<Rightarrow> Translator \<Rightarrow> Translator" where
  "Translator_AddMessages m t = t\<lparr>messages := messages t ++ m\<rparr>"

section \<open>The Validation session\<close>

text \<open>
  A filter rule. \<open>Filtering\<close> reads \<open>rule.fields[0]\<close>; the other members of the struct
  are declared outside \<open>validation.go\<close> and are kept as one abstract component.
\<close>

record 'x FilterRule =
  fields' :: "string list"
  filters :: 'x

text \<open>
  The \<open>Validation\<close> struct, field by field. \<open>'d\<close> is the data source state (\<open>None\<close> is
  the nil interface), \<open>'r\<close> the type of validation rules, \<open>'m\<close> stands for \<open>funcMeta\<close>
  and \<open>'f\<close> for \<open>reflect.Value\<close>. The translator pointer is taken to be non-nil, as
  the constructor leaves it.
\<close>

record ('d, 'a, 'r, 'x, 'm, 'f) Validation =
  data :: "'d option"
  safeData :: "string \<rightharpoonup> 'a any"
  filteredData :: "string \<rightharpoonup> 'a any"
  defValues :: "string \<rightharpoonup> 'a any"
  Errors :: Errors
  StopOnError :: bool
  SkipOnEmpty :: bool
  UpdateSource :: bool
  CheckDefault :: bool
  hasError :: bool
  hasFiltered :: bool
  hasValidated :: bool
  rules :: "'r list"
  validators :: "string \<rightharpoonup> int8"
  validatorMetas :: "string \<rightharpoonup> 'm"
  scene :: string
  scenes :: "string \<rightharpoonup> string list"
  sceneFields :: "string \<rightharpoonup> uint8"
  filterRules :: "'x FilterRule list"
  filterValues :: "string \<rightharpoonup> 'f"
  trans' :: Translator

subsection \<open>Validation settings\<close>

definition ResetResult ::
  "('d, 'a, 'r, 'x, 'm, 'f) Validation \<Rightarrow> ('d, 'a, 'r, 'x, 'm, 'f) Validation" where
  "ResetResult v =
     v\<lparr>Errors := Map.empty, hasError := False, hasFiltered := False, hasValidated := False,
       safeData := Map.empty, filteredData := Map.empty\<rparr>"

text \<open>\<open>v.rules[:0]\<close> and \<open>v.filterRules[:0]\<close>: the slices are cut to length zero.\<close>

definition resetRules ::
  "('d, 'a, 'r, 'x, 'm, 'f) Validation \<Rightarrow> ('d, 'a, 'r, 'x, 'm, 'f) Validation" where
  "resetRules v = v\<lparr>rules := take 0 (rules v), filterRules := take 0 (filterRules v)\<rparr>"

definition Reset ::
  "('d, 'a, 'r, 'x, 'm, 'f) Validation \<Rightarrow> ('d, 'a, 'r, 'x, 'm, 'f) Validation" where
  "Reset v = resetRules (ResetResult v)"

definition WithTrans ::
  "Translator \<Rightarrow> ('d, 'a, 'r, 'x, 'm, 'f) Validation \<Rightarrow> ('d, 'a, 'r, 'x, 'm, 'f) Validation" where
  "WithTrans t v = v\<lparr>trans' := t\<rparr>"

definition WithScenes ::
  "(string \<rightharpoonup> string list) \<Rightarrow> ('d, 'a, 'r, 'x, 'm, 'f) Validation
     \<Rightarrow> ('d, 'a, 'r, 'x, 'm, 'f) Validation" where
  "WithScenes ss v = v\<lparr>scenes := ss\<rparr>"

definition AtScene ::
  "string \<Rightarrow> ('d, 'a, 'r, 'x, 'm, 'f) Validation \<Rightarrow> ('d, 'a, 'r, 'x, 'm, 'f) Validation" where
  "AtScene s v = v\<lparr>scene := s\<rparr>"

definition SetScene ::
  "string list \<Rightarrow> ('d, 'a, 'r, 'x, 'm, 'f) Validation \<Rightarrow> ('d, 'a, 'r, 'x, 'm, 'f) Validation" where
  "SetScene ss v = (case ss of s # _ \<Rightarrow> AtScene s v | [] \<Rightarrow> v)"

subsection \<open>Error messages\<close>

definition WithTranslates ::
  "(string \<rightharpoonup> string) \<Rightarrow> ('d, 'a, 'r, 'x, 'm, 'f) Validation
     \<Rightarrow> ('d, 'a, 'r, 'x, 'm, 'f) Validation" where
  "WithTranslates m v = v\<lparr>trans' := AddLabelMap m (trans' v)\<rparr>"

definition WithMessages ::
  "(string \<rightharpoonup> string) \<Rightarrow> ('d, 'a, 'r, 'x, 'm, 'f) Validation
     \<Rightarrow> ('d, 'a, 'r, 'x, 'm, 'f) Validation" where
  "WithMessages m v = v\<lparr>trans' := Translator_AddMessages m (trans' v)\<rparr>"

definition AddError ::
  "string \<Rightarrow> string \<Rightarrow> string \<Rightarrow> ('d, 'a, 'r, 'x, 'm, 'f) Validation
     \<Rightarrow> ('d, 'a, 'r, 'x, 'm, 'f) Validation" where
  "AddError field validator msg v =
     (let v1 = (if \<not> hasError v then v\<lparr>hasError := True\<rparr> else v);
          field1 = FieldName (trans' v1) field
      in v1\<lparr>Errors := Errors_Add field1 validator msg (Errors v1)\<rparr>)"

text \<open>\<open>WithError\<close>: the argument is the text of a non-nil error, or \<open>None\<close> for nil.\<close>

definition WithError ::
  "string option \<Rightarrow> ('d, 'a, 'r, 'x, 'm, 'f) Validation \<Rightarrow> ('d, 'a, 'r, 'x, 'm, 'f) Validation" where
  "WithError err v =
     (case err of Some e \<Rightarrow> AddError validateError validateError e v | None \<Rightarrow> v)"

text \<open>\<open>AddErrorf\<close>: the argument is the message already formatted by \<open>fmt.Sprintf\<close>.\<close>

definition AddErrorf ::
  "string \<Rightarrow> string \<Rightarrow> ('d, 'a, 'r, 'x, 'm, 'f) Validation \<Rightarrow> ('d, 'a, 'r, 'x, 'm, 'f) Validation" where
  "AddErrorf field formatted v = AddError field validateError formatted v"

definition IsOK :: "('d, 'a, 'r, 'x, 'm, 'f) Validation \<Rightarrow> bool" where
  "IsOK v = (\<not> hasError v)"

definition IsFail :: "('d, 'a, 'r, 'x, 'm, 'f) Validation \<Rightarrow> bool" where
  "IsFail v = hasError v"

definition IsSuccess :: "('d, 'a, 'r, 'x, 'm, 'f) Validation \<Rightarrow> bool" where
  "IsSuccess v = (\<not> hasError v)"

definition shouldStop :: "('d, 'a, 'r, 'x, 'm, 'f) Validation \<Rightarrow> bool" where
  "shouldStop v = (hasError v \<and> StopOnError v)"

subsection \<open>Getters and setters\<close>

definition Raw ::
  "('d, 'a, 'f) DataFace \<Rightarrow> ('d, 'a, 'r, 'x, 'm, 'f) Validation \<Rightarrow> string
     \<Rightarrow> panic + ('a any \<times> bool)" where
  "Raw ops v key =
     (if data v = None then Inr (Nil, False)
      else callData (data v) (\<lambda>d. data_Get ops d key))"

definition RawVal ::
  "('d, 'a, 'f) DataFace \<Rightarrow> ('d, 'a, 'r, 'x, 'm, 'f) Validation \<Rightarrow> string \<Rightarrow> panic + 'a any" where
  "RawVal ops v key =
     (if data v = None then Inr Nil
      else callData (data v) (\<lambda>d. fst (data_Get ops d key)))"

definition tryGet ::
  "('d, 'a, 'f) DataFace \<Rightarrow> ('d, 'a, 'r, 'x, 'm, 'f) Validation \<Rightarrow> string
     \<Rightarrow> panic + ('a any \<times> bool \<times> bool)" where
  "tryGet ops v key =
     (if data v = None then Inr (Nil, False, False)
      else case filteredData v key of
             Some val \<Rightarrow> Inr (val, True, False)
           | None \<Rightarrow>
               (case safeData v key of
                  Some val \<Rightarrow> Inr (val, True, False)
                | None \<Rightarrow> callData (data v) (\<lambda>d. data_TryGet ops d key)))"

definition Get ::
  "('d, 'a, 'f) DataFace \<Rightarrow> ('d, 'a, 'r, 'x, 'm, 'f) Validation \<Rightarrow> string
     \<Rightarrow> panic + ('a any \<times> bool)" where
  "Get ops v key =
     (case tryGet ops v key of
        Inl p \<Rightarrow> Inl p
      | Inr (val, exist, _) \<Rightarrow> Inr (val, exist))"

definition GetWithDefault ::
  "('d, 'a, 'f) DataFace \<Rightarrow> ('d, 'a, 'r, 'x, 'm, 'f) Validation \<Rightarrow> string
     \<Rightarrow> panic + ('a any \<times> bool \<times> bool)" where
  "GetWithDefault ops v key =
     (case tryGet ops v key of
        Inl p \<Rightarrow> Inl p
      | Inr (val, exist, zero) \<Rightarrow>
          if exist \<and> \<not> zero then Inr (val, exist, False)
          else (case defValues v key of
                  Some defVal \<Rightarrow> Inr (defVal, exist, True)
                | None \<Rightarrow> Inr (val, exist, False)))"

definition Filtered :: "('d, 'a, 'r, 'x, 'm, 'f) Validation \<Rightarrow> string \<Rightarrow> 'a any" where
  "Filtered v key = (case filteredData v key of Some val \<Rightarrow> val | None \<Rightarrow> Nil)"

definition Safe ::
  "('d, 'a, 'r, 'x, 'm, 'f) Validation \<Rightarrow> string \<Rightarrow> panic + ('a any \<times> bool)" where
  "Safe v key =
     (if data v = None then Inr (Nil, False)
      else case safeData v key of Some val \<Rightarrow> Inr (val, True) | None \<Rightarrow> Inr (Nil, False))"

definition SafeVal :: "('d, 'a, 'r, 'x, 'm, 'f) Validation \<Rightarrow> string \<Rightarrow> panic + 'a any" where
  "SafeVal v key = (case Safe v key of Inl p \<Rightarrow> Inl p | Inr (val, _) \<Rightarrow> Inr val)"

text \<open>\<open>Set\<close> returns the error of \<open>v.data.Set\<close>; the data source may have been mutated.\<close>

definition Set ::
  "('d, 'a, 'f) DataFace \<Rightarrow> ('d, 'a, 'r, 'x, 'm, 'f) Validation \<Rightarrow> string \<Rightarrow> 'a any
     \<Rightarrow> panic + (goerror option \<times> ('d, 'a, 'r, 'x, 'm, 'f) Validation)" where
  "Set ops v field val =
     (if data v = None then Inr (Some ErrEmptyData, v)
      else callData (data v)
             (\<lambda>d. case data_Set ops d field val of
                     ((_, err), d1) \<Rightarrow> (err, v\<lparr>data := Some d1\<rparr>)))"

text \<open>\<open>strings.HasSuffix\<close> and \<open>strings.TrimSuffix\<close>.\<close>

definition HasSuffix :: "string \<Rightarrow> string \<Rightarrow> bool" where
  "HasSuffix s suf =
     (length s \<ge> length suf \<and> drop (length s - length suf) s = suf)"

definition TrimSuffix :: "string \<Rightarrow> string \<Rightarrow> string" where
  "TrimSuffix s suf =
     (if HasSuffix s suf then take (length s - length suf) s else s)"

definition updateValue ::
  "('d, 'a, 'f) DataFace \<Rightarrow> ('d, 'a, 'r, 'x, 'm, 'f) Validation \<Rightarrow> string \<Rightarrow> 'a any
     \<Rightarrow> panic + (('a any \<times> goerror option) \<times> ('d, 'a, 'r, 'x, 'm, 'f) Validation)" where
  "updateValue ops v field val =
     callData (data v)
       (\<lambda>d. if data_Type ops d = sourceStruct
            then (case data_Set ops d (TrimSuffix field ''.*'') val of
                    (res, d1) \<Rightarrow> (res, v\<lparr>data := Some d1\<rparr>))
            else ((val, None), v))"

definition SetDefValue ::
  "string \<Rightarrow> 'a any \<Rightarrow> ('d, 'a, 'r, 'x, 'm, 'f) Validation
     \<Rightarrow> ('d, 'a, 'r, 'x, 'm, 'f) Validation" where
  "SetDefValue field val v = v\<lparr>defValues := (defValues v)(field \<mapsto> val)\<rparr>"

definition GetDefValue ::
  "('d, 'a, 'r, 'x, 'm, 'f) Validation \<Rightarrow> string \<Rightarrow> 'a any \<times> bool" where
  "GetDefValue v field =
     (case defValues v field of Some defVal \<Rightarrow> (defVal, True) | None \<Rightarrow> (Nil, False))"

subsection \<open>Validators of the session\<close>

text \<open>
  \<open>checkValidatorFunc\<close> and \<open>newFuncMeta\<close> are declared outside \<open>validation.go\<close> and
  are taken as parameters: \<open>checkValidatorFunc name checkFunc\<close> is the reflected callable,
  or \<open>None\<close> when it panics on a malformed callable.
\<close>

definition AddValidator ::
  "(string \<Rightarrow> 'c \<Rightarrow> 'f option) \<Rightarrow> (string \<Rightarrow> bool \<Rightarrow> 'f \<Rightarrow> 'm) \<Rightarrow> string \<Rightarrow> 'c
     \<Rightarrow> ('d, 'a, 'r, 'x, 'm, 'f) Validation \<Rightarrow> panic + ('d, 'a, 'r, 'x, 'm, 'f) Validation" where
  "AddValidator checkValidatorFunc newFuncMeta name checkFunc v =
     (case checkValidatorFunc name checkFunc of
        None \<Rightarrow> Inl InvalidValidatorFunc
      | Some fv \<Rightarrow>
          Inr (v\<lparr>validators := (validators v)(name \<mapsto> validatorTypeCustom),
                 validatorMetas := (validatorMetas v)(name \<mapsto> newFuncMeta name False fv)\<rparr>))"

text \<open>
  \<open>validatorMeta\<close>: \<open>globalMetas\<close> is the package-level table \<open>validatorMetas\<close>. The
  result is the meta found (\<open>None\<close> for nil) and the session, which the struct-method
  case updates.
\<close>

definition validatorMeta ::
  "(string \<rightharpoonup> 'm) \<Rightarrow> (string \<Rightarrow> bool \<Rightarrow> 'f \<Rightarrow> 'm) \<Rightarrow> ('d, 'a, 'f) DataFace
     \<Rightarrow> ('d, 'a, 'r, 'x, 'm, 'f) Validation \<Rightarrow> string
     \<Rightarrow> panic + ('m option \<times> ('d, 'a, 'r, 'x, 'm, 'f) Validation)" where
  "validatorMeta globalMetas newFuncMeta ops v name =
     (case validatorMetas v name of
        Some fm \<Rightarrow> Inr (Some fm, v)
      | None \<Rightarrow>
          (case globalMetas name of
             Some fm \<Rightarrow> Inr (Some fm, v)
           | None \<Rightarrow>
               callData (data v)
                 (\<lambda>d. if data_Type ops d = sourceStruct
                      then (case data_FuncValue ops d name of
                              Some fv \<Rightarrow>
                                (let fm = newFuncMeta name False fv
                                 in (Some fm,
                                     v\<lparr>validators := (validators v)(name \<mapsto> validatorTypeCustom),
                                       validatorMetas := (validatorMetas v)(name \<mapsto> fm)\<rparr>))
                            | None \<Rightarrow> (None, v))
                      else (None, v))))"

subsection \<open>Filtering\<close>

text \<open>
  \<open>FilterRule.Apply\<close> is declared outside \<open>validation.go\<close> and is taken as a parameter:
  \<open>apply rule v\<close> is the text \<open>err.Error()\<close> of the error returned (\<open>None\<close> for nil)
  and the session as the rule leaves it. The loop ranges over the slice read at its start.
  Beside the session, the loop returns a log kept for the proofs: the rules whose
  \<open>Apply\<close> was called, in the order of the calls.
\<close>

fun Filtering_loop ::
  "('x FilterRule \<Rightarrow> ('d, 'a, 'r, 'x, 'm, 'f) Validation
       \<Rightarrow> string option \<times> ('d, 'a, 'r, 'x, 'm, 'f) Validation)
     \<Rightarrow> 'x FilterRule list \<Rightarrow> ('d, 'a, 'r, 'x, 'm, 'f) Validation
     \<Rightarrow> panic + ('x FilterRule list \<times> ('d, 'a, 'r, 'x, 'm, 'f) Validation)" where
  "Filtering_loop apply [] v = Inr ([], v)"
| "Filtering_loop apply (rule # rest) v =
     (case apply rule v of
        (Some err, v1) \<Rightarrow>
          (case fields' rule of
             [] \<Rightarrow> Inl IndexOutOfRange
           | f0 # _ \<Rightarrow> Inr ([rule], AddError filterError filterError (f0 @ '': '' @ err) v1))
      | (None, v1) \<Rightarrow>
          (case Filtering_loop apply rest v1 of
             Inl p \<Rightarrow> Inl p
           | Inr (applied, v2) \<Rightarrow> Inr (rule # applied, v2)))"

text \<open>\<open>Filtering\<close>: the log of the loop, the value returned and the session.\<close>

definition Filtering ::
  "('x FilterRule \<Rightarrow> ('d, 'a, 'r, 'x, 'm, 'f) Validation
       \<Rightarrow> string option \<times> ('d, 'a, 'r, 'x, 'm, 'f) Validation)
     \<Rightarrow> ('d, 'a, 'r, 'x, 'm, 'f) Validation
     \<Rightarrow> panic + ('x FilterRule list \<times> bool \<times> ('d, 'a, 'r, 'x, 'm, 'f) Validation)" where
  "Filtering apply v =
     (if hasFiltered v then Inr ([], IsSuccess v, v)
      else case Filtering_loop apply (filterRules v) v of
             Inl p \<Rightarrow> Inl p
           | Inr (applied, v1) \<Rightarrow>
               (let v2 = v1\<lparr>hasFiltered := True\<rparr> in Inr (applied, IsSuccess v2, v2)))"

text \<open>
  The rules of a list apply one after the other without an error: the session they
  leave, or \<open>None\<close> when one of them returns an error.
\<close>

fun applyAll ::
  "('x FilterRule \<Rightarrow> ('d, 'a, 'r, 'x, 'm, 'f) Validation
       \<Rightarrow> string option \<times> ('d, 'a, 'r, 'x, 'm, 'f) Validation)
     \<Rightarrow> 'x FilterRule list \<Rightarrow> ('d, 'a, 'r, 'x, 'm, 'f) Validation
     \<Rightarrow> ('d, 'a, 'r, 'x, 'm, 'f) Validation option" where
  "applyAll apply [] v = Some v"
| "applyAll apply (rule # rest) v =
     (case apply rule v of
        (Some err, v1) \<Rightarrow> None
      | (None, v1) \<Rightarrow> applyAll apply rest v1)"

subsection \<open>Scenes\<close>

text \<open>
  \<open>strings.Split\<close> for a separator of one byte (the two call sites split at \<open>"."\<close> and
  at \<open>","\<close>) and \<open>strings.Join\<close>.
\<close>

fun Split :: "string \<Rightarrow> char \<Rightarrow> string list" where
  "Split [] sep = [[]]"
| "Split (c # cs) sep =
     (if c = sep then [] # Split cs sep
      else (case Split cs sep of w # ws \<Rightarrow> (c # w) # ws | [] \<Rightarrow> [[c]]))"

fun Join :: "string list \<Rightarrow> string \<Rightarrow> string" where
  "Join [] sep = []"
| "Join [x] sep = x"
| "Join (x # y # zs) sep = x @ sep @ Join (y # zs) sep"

definition SceneFields :: "('d, 'a, 'r, 'x, 'm, 'f) Validation \<Rightarrow> string list" where
  "SceneFields v = (case scenes v (scene v) of Some fs \<Rightarrow> fs | None \<Rightarrow> [])"

definition sceneFieldMap :: "('d, 'a, 'r, 'x, 'm, 'f) Validation \<Rightarrow> (string \<rightharpoonup> uint8)" where
  "sceneFieldMap v =
     (if scene v = [] then Map.empty
      else case scenes v (scene v) of
             Some fs \<Rightarrow> fold (\<lambda>field m. m(field \<mapsto> 1)) fs Map.empty
           | None \<Rightarrow> Map.empty)"




section \<open>The JSON input adapter\<close>

text \<open>Status codes of \<open>net/http\<close>.\<close>

definition StatusOK :: int where
  "StatusOK = 200"

definition StatusBadRequest :: int where
  "StatusBadRequest = 400"

definition StatusRequestEntityTooLarge :: int where
  "StatusRequestEntityTooLarge = 413"

definition StatusUnsupportedMediaType :: int where
  "StatusUnsupportedMediaType = 415"

definition StatusInternalServerError :: int where
  "StatusInternalServerError = 500"

text \<open>
  What \<open>Unmarshal\<close> reads of a request: the value of its \<open>Content-type\<close> header (empty
  when absent) and the outcome of \<open>ioutil.ReadAll(r.Body)\<close>, the text of the read error
  or the bytes of the body.
\<close>

record Request =
  Content_type :: string
  Body :: "string + 8 word list"

text \<open>
  What \<open>Unmarshal\<close> observes of an error of the decoder: \<open>errors.As\<close> for a
  \<open>*json.SyntaxError\<close> (its offset) and for a \<open>*json.UnmarshalTypeError\<close> (its field
  and offset), \<open>errors.Is\<close> for \<open>io.ErrUnexpectedEOF\<close> and \<open>io.EOF\<close>, and the text
  \<open>err.Error()\<close>.
\<close>

record jsonError =
  asSyntaxError :: "int option"
  isUnexpectedEOF :: bool
  asUnmarshalTypeError :: "(string \<times> int) option"
  isEOF :: bool
  Error :: string

text \<open>The decimal text of an integer, as \<open>%v\<close> prints an \<open>int64\<close>.\<close>

function showNat :: "nat \<Rightarrow> string" where
  "showNat n =
     (if n < 10 then [''0123456789'' ! n]
      else showNat (n div 10) @ [''0123456789'' ! (n mod 10)])"
  by pat_completeness auto
termination
  by (relation "measure (\<lambda>n. n)") auto

declare showNat.simps [simp del]

definition showInt :: "int \<Rightarrow> string" where
  "showInt i = (if i < 0 then CHR ''-'' # showNat (nat (- i)) else showNat (nat i))"

definition HasPrefix :: "string \<Rightarrow> string \<Rightarrow> bool" where
  "HasPrefix s pre = (length s \<ge> length pre \<and> take (length pre) s = pre)"

definition TrimPrefix :: "string \<Rightarrow> string \<Rightarrow> string" where
  "TrimPrefix s pre = (if HasPrefix s pre then drop (length pre) s else s)"

text \<open>
  The loop of \<open>HasContentType\<close> over the parts of the header. \<open>mime.ParseMediaType\<close> is
  a parameter: the media type of a part, or \<open>None\<close> when it returns an error.
\<close>

fun HasContentType_loop :: "(string \<Rightarrow> string option) \<Rightarrow> string list \<Rightarrow> string \<Rightarrow> bool" where
  "HasContentType_loop ParseMediaType [] mimetype = False"
| "HasContentType_loop ParseMediaType (v # vs) mimetype =
     (case ParseMediaType v of
        None \<Rightarrow> False
      | Some t \<Rightarrow> if t = mimetype then True else HasContentType_loop ParseMediaType vs mimetype)"

definition HasContentType :: "(string \<Rightarrow> string option) \<Rightarrow> Request \<Rightarrow> string \<Rightarrow> bool" where
  "HasContentType ParseMediaType r mimetype =
     (let contentType = Content_type r
      in if contentType = [] then mimetype = ''application/octet-stream''
         else HasContentType_loop ParseMediaType (Split contentType CHR '','') mimetype)"

text \<open>The switch of \<open>Unmarshal\<close> over a decoding error.\<close>

definition decodeFailure :: "jsonError \<Rightarrow> int \<times> string option" where
  "decodeFailure err =
     (case asSyntaxError err of
        Some off \<Rightarrow> (StatusBadRequest, Some (''malformed json at position '' @ showInt off))
      | None \<Rightarrow>
          if isUnexpectedEOF err then (StatusBadRequest, Some ''malformed json'')
          else (case asUnmarshalTypeError err of
                  Some (fld, off) \<Rightarrow>
                    (StatusBadRequest,
                     Some (''invalid value '' @ fld @ '' at position '' @ showInt off))
                | None \<Rightarrow>
                    if HasPrefix (Error err) ''json: unknown field''
                    then (StatusBadRequest,
                          Some (''unknown field '' @ TrimPrefix (Error err) ''json: unknown field ''))
                    else if isEOF err then (StatusBadRequest, Some ''body must not be empty'')
                    else if Error err = ''http: request body too large''
                    then (StatusRequestEntityTooLarge, Some (Error err))
                    else (StatusInternalServerError,
                          Some (''failed to decode json '' @ Error err))))"

text \<open>
  \<open>Unmarshal\<close>. The decoder of \<open>encoding/json\<close> is a parameter: \<open>Decode bs\<close> is the
  error of \<open>d.Decode\<close> on the bytes \<open>bs\<close> (\<open>None\<close> for nil) and the value of
  \<open>d.More()\<close> after it. \<open>data\<close> is \<open>None\<close> for the nil slice. The result is the
  status and the text of the error returned (\<open>None\<close> for nil).
\<close>

definition Unmarshal_decode ::
  "(8 word list \<Rightarrow> jsonError option \<times> bool) \<Rightarrow> 8 word list \<Rightarrow> int \<times> string option" where
  "Unmarshal_decode Decode bs =
     (case Decode bs of
        (Some err, _) \<Rightarrow> decodeFailure err
      | (None, hasMore) \<Rightarrow>
          if hasMore then (StatusBadRequest, Some ''body must contain only one JSON object'')
          else (StatusOK, None))"

definition Unmarshal ::
  "(string \<Rightarrow> string option) \<Rightarrow> (8 word list \<Rightarrow> jsonError option \<times> bool)
     \<Rightarrow> Request option \<Rightarrow> 8 word list option \<Rightarrow> int \<times> string option" where
  "Unmarshal ParseMediaType Decode r data' =
     (case (r, data') of
        (None, None) \<Rightarrow> (StatusUnsupportedMediaType, Some ''no data provided'')
      | (Some _, Some _) \<Rightarrow>
          (StatusUnsupportedMediaType,
           Some ''multiple data provided for unmarshalling not supported'')
      | (Some req, None) \<Rightarrow>
          (case Body req of
             Inl _ \<Rightarrow> (StatusBadRequest, Some ''error reading request body'')
           | Inr bodyBytes \<Rightarrow>
               if \<not> HasContentType ParseMediaType req ''application/json''
               then (StatusUnsupportedMediaType, Some ''content-type is not application/json'')
               else Unmarshal_decode Decode bodyBytes)
      | (None, Some bs) \<Rightarrow> Unmarshal_decode Decode bs)"

section \<open>Sequences of calls\<close>

text \<open>
  The methods of \<open>validation.go\<close> that change the session and run no rule code, as
  commands, so that a property can be stated for every sequence of calls.
\<close>

datatype ('a, 'c) action =
    DoWithTrans Translator
  | DoWithScenes "string \<rightharpoonup> string list"
  | DoAtScene string
  | DoSetScene "string list"
  | DoAddValidator string 'c
  | DoValidatorMeta string
  | DoWithTranslates "string \<rightharpoonup> string"
  | DoWithMessages "string \<rightharpoonup> string"
  | DoWithError "string option"
  | DoAddError string string string
  | DoAddErrorf string string
  | DoSet string "'a any"
  | DoUpdateValue string "'a any"
  | DoSetDefValue string "'a any"
  | DoResetResult
  | DoReset

text \<open>The environment of a session: the parameters of the methods above.\<close>

record ('d, 'a, 'c, 'm, 'f) env =
  checkValidatorFunc :: "string \<Rightarrow> 'c \<Rightarrow> 'f option"
  newFuncMeta :: "string \<Rightarrow> bool \<Rightarrow> 'f \<Rightarrow> 'm"
  globalMetas :: "string \<rightharpoonup> 'm"
  dataOps :: "('d, 'a, 'f) DataFace"

fun run ::
  "('d, 'a, 'c, 'm, 'f) env \<Rightarrow> ('a, 'c) action \<Rightarrow> ('d, 'a, 'r, 'x, 'm, 'f) Validation
     \<Rightarrow> panic + ('d, 'a, 'r, 'x, 'm, 'f) Validation" where
  "run E (DoWithTrans t) v = Inr (WithTrans t v)"
| "run E (DoWithScenes ss) v = Inr (WithScenes ss v)"
| "run E (DoAtScene s) v = Inr (AtScene s v)"
| "run E (DoSetScene ss) v = Inr (SetScene ss v)"
| "run E (DoAddValidator name checkFunc) v =
     AddValidator (checkValidatorFunc E) (newFuncMeta E) name checkFunc v"
| "run E (DoValidatorMeta name) v =
     map_sum id snd (validatorMeta (globalMetas E) (newFuncMeta E) (dataOps E) v name)"
| "run E (DoWithTranslates m) v = Inr (WithTranslates m v)"
| "run E (DoWithMessages m) v = Inr (WithMessages m v)"
| "run E (DoWithError err) v = Inr (WithError err v)"
| "run E (DoAddError field validator msg) v = Inr (AddError field validator msg v)"
| "run E (DoAddErrorf field formatted) v = Inr (AddErrorf field formatted v)"
| "run E (DoSet field val) v = map_sum id snd (Set (dataOps E) v field val)"
| "run E (DoUpdateValue field val) v = map_sum id snd (updateValue (dataOps E) v field val)"
| "run E (DoSetDefValue field val) v = Inr (SetDefValue field val v)"
| "run E DoResetResult v = Inr (ResetResult v)"
| "run E DoReset v = Inr (Reset v)"

fun runAll ::
  "('d, 'a, 'c, 'm, 'f) env \<Rightarrow> ('a, 'c) action list \<Rightarrow> ('d, 'a, 'r, 'x, 'm, 'f) Validation
     \<Rightarrow> panic + ('d, 'a, 'r, 'x, 'm, 'f) Validation" where
  "runAll E [] v = Inr v"
| "runAll E (act # acts) v =
     (case run E act v of Inl p \<Rightarrow> Inl p | Inr v1 \<Rightarrow> runAll E acts v1)"

section \<open>Example sessions\<close>

text \<open>
  Modelled from the spec: a data source adapter (the adapters are declared outside
  \<open>validation.go\<close>). A source holds its kind, its fields and, when struct-backed, its
  methods. Only the struct-backed source reports a zero value on \<open>TryGet\<close> and looks
  methods up; \<open>Set\<close> on a struct-backed source mutates the field in place, on a
  map-backed or form-backed source it is a passthrough that returns the value unchanged.
\<close>

record source =
  kind :: sourceType
  content :: "string \<rightharpoonup> nat any"
  methods :: "string \<rightharpoonup> nat"

definition sourceOps :: "(source, nat, nat) DataFace" where
  "sourceOps =
     \<lparr>data_Type = kind,
      data_Get = (\<lambda>d key. case content d key of Some x \<Rightarrow> (x, True) | None \<Rightarrow> (Nil, False)),
      data_TryGet = (\<lambda>d key. case content d key of
                                Some x \<Rightarrow> (x, True, kind d = sourceStruct \<and> x = Val 0)
                              | None \<Rightarrow> (Nil, False, False)),
      data_Set = (\<lambda>d key x. if kind d = sourceStruct
                             then ((x, None), d\<lparr>content := (content d)(key \<mapsto> x)\<rparr>)
                             else ((x, None), d)),
      data_FuncValue = (\<lambda>d name. if kind d = sourceStruct then methods d name else None)\<rparr>"

text \<open>A session over the data source \<open>d\<close> with no rules, no results and no scene.\<close>

definition blank :: "'d option \<Rightarrow> ('d, 'a, 'r, 'x, 'm, 'f) Validation" where
  "blank d =
     \<lparr>data = d, safeData = Map.empty, filteredData = Map.empty, defValues = Map.empty,
      Errors = Map.empty, StopOnError = False, SkipOnEmpty = False, UpdateSource = False,
      CheckDefault = False, hasError = False, hasFiltered = False, hasValidated = False,
      rules = [], validators = Map.empty, validatorMetas = Map.empty, scene = [],
      scenes = Map.empty, sceneFields = Map.empty, filterRules = [],
      filterValues = Map.empty,
      trans' = \<lparr>labelMap = Map.empty, messages = Map.empty\<rparr>\<rparr>"

type_synonym session = "(source, nat, string, unit, string \<times> bool \<times> nat, nat) Validation"

text \<open>A map-backed source and a struct-backed source with one method.\<close>

definition formData :: source where
  "formData = \<lparr>kind = sourceMap, content = [''name'' \<mapsto> Val 7], methods = Map.empty\<rparr>"

definition userStruct :: source where
  "userStruct =
     \<lparr>kind = sourceStruct, content = [''name'' \<mapsto> Val 7, ''age'' \<mapsto> Val 0],
      methods = [''IsAdult'' \<mapsto> 42]\<rparr>"

text \<open>
  Three filter rules and an \<open>Apply\<close> for them: the rule for \<open>age\<close> returns an error,
  every other rule stores a filtered value for its first field.
\<close>

definition nameRule :: "unit FilterRule" where
  "nameRule = \<lparr>fields' = [''name''], filters = ()\<rparr>"

definition ageRule :: "unit FilterRule" where
  "ageRule = \<lparr>fields' = [''age'', ''years''], filters = ()\<rparr>"

definition emailRule :: "unit FilterRule" where
  "emailRule = \<lparr>fields' = [''email''], filters = ()\<rparr>"

definition exampleApply :: "unit FilterRule \<Rightarrow> session \<Rightarrow> string option \<times> session" where
  "exampleApply rule v =
     (case fields' rule of
        [] \<Rightarrow> (None, v)
      | f0 # _ \<Rightarrow>
          if f0 = ''age'' then (Some ''invalid syntax'', v)
          else (None, v\<lparr>filteredData := (filteredData v)(f0 \<mapsto> Val 1)\<rparr>))"

definition filterSession :: session where
  "filterSession = (blank (Some formData))\<lparr>filterRules := [nameRule, ageRule, emailRule]\<rparr>"

text \<open>An environment: every callable is accepted, one validator is global.\<close>

definition exampleEnv :: "(source, nat, nat, string \<times> bool \<times> nat, nat) env" where
  "exampleEnv =
     \<lparr>checkValidatorFunc = (\<lambda>name checkFunc. Some checkFunc),
      newFuncMeta = (\<lambda>name isInternal fv. (name, isInternal, fv)),
      globalMetas = [''required'' \<mapsto> (''required'', True, 1)],
      dataOps = sourceOps\<rparr>"


section \<open>Properties\<close>

text \<open>
  The session has failed and holds an entry for the validator \<open>val\<close> under the field
  name \<open>f\<close>.
\<close>

definition hasEntry :: "('d, 'a, 'r, 'x, 'm, 'f) Validation \<Rightarrow> string \<Rightarrow> string \<Rightarrow> bool" where
  "hasEntry v f val = (hasError v \<and> (\<exists>ms m. Errors v f = Some ms \<and> ms val = Some m))"

subsection \<open>Resetting a session\<close>

text \<open>
  Claim C1, as amended. \<open>Reset\<close> clears the run-state (\<open>Errors\<close>, \<open>hasError\<close>,
  \<open>hasFiltered\<close>, \<open>hasValidated\<close>, \<open>safeData\<close>, \<open>filteredData\<close>) and, as its comment
  announces, also empties \<open>rules\<close> and \<open>filterRules\<close>. \<open>ResetResult\<close> clears the same
  run-state and leaves \<open>rules\<close> and \<open>filterRules\<close> unchanged, so it is after
  \<open>ResetResult\<close> that the same rule set can validate again.
\<close>

theorem Reset_clears_results_and_rules:
  "Errors (Reset v) = Map.empty \<and> hasError (Reset v) = False
   \<and> hasFiltered (Reset v) = False \<and> hasValidated (Reset v) = False
   \<and> safeData (Reset v) = Map.empty \<and> filteredData (Reset v) = Map.empty
   \<and> rules (Reset v) = [] \<and> filterRules (Reset v) = []
   \<and> Errors (ResetResult v) = Map.empty \<and> hasError (ResetResult v) = False
   \<and> hasFiltered (ResetResult v) = False \<and> hasValidated (ResetResult v) = False
   \<and> safeData (ResetResult v) = Map.empty \<and> filteredData (ResetResult v) = Map.empty
   \<and> rules (ResetResult v) = rules v \<and> filterRules (ResetResult v) = filterRules v"
  by (simp add: Reset_def resetRules_def ResetResult_def)

text \<open>
  Claim C1 as stated fails: in a session with one rule and three filter rules,
  \<open>Reset\<close> leaves neither list as it was.
\<close>

theorem Reset_keeps_rules_counterexample:
  "rules (Reset (filterSession\<lparr>rules := [''required'']\<rparr>))
     \<noteq> rules (filterSession\<lparr>rules := [''required'']\<rparr>)
   \<and> filterRules (Reset (filterSession\<lparr>rules := [''required'']\<rparr>))
     \<noteq> filterRules (filterSession\<lparr>rules := [''required'']\<rparr>)"
  by (simp add: Reset_def resetRules_def ResetResult_def filterSession_def blank_def)

subsection \<open>A session without data\<close>

text \<open>
  Claim C10. When the data source of the session is nil, \<open>Raw\<close> and \<open>Get\<close> return
  \<open>(nil, false)\<close>, \<open>Safe\<close> reports the key absent whatever \<open>safeData\<close> holds, and
  \<open>Set\<close> returns \<open>ErrEmptyData\<close> and leaves the session as it was. Each of the four
  returns a value: none of them reaches a method call on the nil interface.
\<close>

theorem nil_data_is_guarded:
  assumes "data v = None"
  shows "Raw ops v key = Inr (Nil, False) \<and> Get ops v key = Inr (Nil, False)
         \<and> Safe v key = Inr (Nil, False) \<and> Set ops v field val = Inr (Some ErrEmptyData, v)"
  using assms by (simp add: Raw_def Get_def tryGet_def Safe_def Set_def)

theorem nil_data_is_guarded_witness:
  "data ((blank None :: session)\<lparr>safeData := [''age'' \<mapsto> Val 30]\<rparr>) = None
   \<and> safeData ((blank None :: session)\<lparr>safeData := [''age'' \<mapsto> Val 30]\<rparr>) ''age'' = Some (Val 30)
   \<and> Raw sourceOps ((blank None :: session)\<lparr>safeData := [''age'' \<mapsto> Val 30]\<rparr>) ''age''
       = Inr (Nil, False)
   \<and> Get sourceOps ((blank None :: session)\<lparr>safeData := [''age'' \<mapsto> Val 30]\<rparr>) ''age''
       = Inr (Nil, False)
   \<and> Safe ((blank None :: session)\<lparr>safeData := [''age'' \<mapsto> Val 30]\<rparr>) ''age'' = Inr (Nil, False)
   \<and> Set sourceOps ((blank None :: session)\<lparr>safeData := [''age'' \<mapsto> Val 30]\<rparr>) ''age'' (Val 31)
       = Inr (Some ErrEmptyData, (blank None)\<lparr>safeData := [''age'' \<mapsto> Val 30]\<rparr>)"
proof -
  let ?v = "(blank None :: session)\<lparr>safeData := [''age'' \<mapsto> Val 30]\<rparr>"
  have h: "data ?v = None" by (simp add: blank_def)
  have s: "safeData ?v ''age'' = Some (Val 30)" by simp
  from h s nil_data_is_guarded [OF h, of sourceOps "''age''" "''age''" "Val 31"]
  show ?thesis by blast
qed

subsection \<open>Filtering runs once\<close>

text \<open>
  Claim C4. When a call of \<open>Filtering\<close> has returned, a second call on the session it
  left, with no reset in between, returns the same success value, applies no filter rule
  (its log of \<open>Apply\<close> calls is empty) and leaves the session, and so \<open>Errors\<close>,
  exactly as it was.
\<close>

theorem Filtering_runs_once:
  assumes "Filtering apply v = Inr (applied, ok, v1)"
  shows "Filtering apply v1 = Inr ([], ok, v1)"
  using assms
  by (auto simp add: Filtering_def Let_def IsSuccess_def split: if_splits sum.splits prod.splits)

theorem Filtering_runs_once_witness:
  "Filtering exampleApply filterSession
     = Inr ([nameRule, ageRule], False,
            (AddError filterError filterError ''age: invalid syntax''
               (filterSession\<lparr>filteredData := [''name'' \<mapsto> Val 1]\<rparr>))\<lparr>hasFiltered := True\<rparr>)
   \<and> Filtering exampleApply
       ((AddError filterError filterError ''age: invalid syntax''
           (filterSession\<lparr>filteredData := [''name'' \<mapsto> Val 1]\<rparr>))\<lparr>hasFiltered := True\<rparr>)
     = Inr ([], False,
            (AddError filterError filterError ''age: invalid syntax''
               (filterSession\<lparr>filteredData := [''name'' \<mapsto> Val 1]\<rparr>))\<lparr>hasFiltered := True\<rparr>)"
proof -
  have first: "Filtering exampleApply filterSession
     = Inr ([nameRule, ageRule], False,
            (AddError filterError filterError ''age: invalid syntax''
               (filterSession\<lparr>filteredData := [''name'' \<mapsto> Val 1]\<rparr>))\<lparr>hasFiltered := True\<rparr>)"
    by (simp add: Filtering_def filterSession_def blank_def exampleApply_def nameRule_def
        ageRule_def emailRule_def AddError_def IsSuccess_def Let_def)
  from first Filtering_runs_once [OF first] show ?thesis by blast
qed

subsection \<open>Writing a value back\<close>

text \<open>
  Claim C8. For a session with a data source: when the source is not struct-backed,
  \<open>updateValue\<close> returns the value unchanged with a nil error and the session, with its
  data source, is exactly as before (\<open>Set\<close> is not called). When the source is
  struct-backed, the results and the new state of the data source are those of the
  source's \<open>Set\<close>, called with the field name cut by \<open>TrimSuffix\<close> of \<open>".*"\<close>.
\<close>

theorem updateValue_writes_back_to_structs_only:
  assumes "data v = Some d"
  shows "(data_Type ops d \<noteq> sourceStruct \<longrightarrow> updateValue ops v field val = Inr ((val, None), v))
       \<and> (data_Type ops d = sourceStruct \<longrightarrow>
            updateValue ops v field val
              = Inr (fst (data_Set ops d (TrimSuffix field ''.*'') val),
                     v\<lparr>data := Some (snd (data_Set ops d (TrimSuffix field ''.*'') val))\<rparr>))"
  using assms by (simp add: updateValue_def callData_def split: prod.splits)

theorem updateValue_writes_back_to_structs_only_witness:
  "updateValue sourceOps (blank (Some formData) :: session) ''tags.*'' (Val 5)
     = Inr ((Val 5, None), blank (Some formData))
   \<and> updateValue sourceOps (blank (Some userStruct) :: session) ''tags.*'' (Val 5)
     = Inr ((Val 5, None),
            blank (Some (userStruct\<lparr>content := (content userStruct)(''tags'' \<mapsto> Val 5)\<rparr>)))"
proof -
  have m: "data (blank (Some formData) :: session) = Some formData"
    and km: "data_Type sourceOps formData \<noteq> sourceStruct"
    by (simp_all add: blank_def sourceOps_def formData_def)
  have t: "data (blank (Some userStruct) :: session) = Some userStruct"
    and kt: "data_Type sourceOps userStruct = sourceStruct"
    by (simp_all add: blank_def sourceOps_def userStruct_def)
  have trim: "TrimSuffix ''tags.*'' ''.*'' = ''tags''"
    by (simp add: TrimSuffix_def HasSuffix_def)
  have set: "data_Set sourceOps userStruct ''tags'' (Val 5)
               = ((Val 5, None), userStruct\<lparr>content := (content userStruct)(''tags'' \<mapsto> Val 5)\<rparr>)"
    by (simp add: sourceOps_def userStruct_def)
  from updateValue_writes_back_to_structs_only [OF m, of sourceOps "''tags.*''" "Val 5"] km
  have a: "updateValue sourceOps (blank (Some formData) :: session) ''tags.*'' (Val 5)
             = Inr ((Val 5, None), blank (Some formData))"
    by blast
  from updateValue_writes_back_to_structs_only [OF t, of sourceOps "''tags.*''" "Val 5"] kt
  have "updateValue sourceOps (blank (Some userStruct) :: session) ''tags.*'' (Val 5)
          = Inr (fst (data_Set sourceOps userStruct (TrimSuffix ''tags.*'' ''.*'') (Val 5)),
                 (blank (Some userStruct))
                   \<lparr>data := Some (snd (data_Set sourceOps userStruct
                                          (TrimSuffix ''tags.*'' ''.*'') (Val 5)))\<rparr>)"
    by blast
  then have b: "updateValue sourceOps (blank (Some userStruct) :: session) ''tags.*'' (Val 5)
     = Inr ((Val 5, None),
            blank (Some (userStruct\<lparr>content := (content userStruct)(''tags'' \<mapsto> Val 5)\<rparr>)))"
    by (simp add: trim set blank_def)
  from a b show ?thesis by blast
qed

subsection \<open>Filtering stops at the first error\<close>

lemma Filtering_loop_stops:
  assumes "applyAll apply rs1 v = Some v1" "apply rule v1 = (Some err, v2)" "fields' rule = f0 # fs"
  shows "Filtering_loop apply (rs1 @ rule # rs2) v
           = Inr (rs1 @ [rule], AddError filterError filterError (f0 @ '': '' @ err) v2)"
  using assms
proof (induction rs1 arbitrary: v)
  case Nil
  then show ?case by simp
next
  case (Cons r rs1)
  then show ?case by (auto split: prod.splits option.splits)
qed

text \<open>
  Claim C3. Let the filter rules be \<open>rs1 @ rule # rs2\<close>, where the rules of \<open>rs1\<close>
  apply without an error and \<open>rule\<close> returns the error \<open>err\<close>. Then \<open>Filtering\<close>
  returns false; the rules whose \<open>Apply\<close> was called are those of \<open>rs1\<close> and \<open>rule\<close>,
  none of \<open>rs2\<close>; and the errors of the session are those the failing \<open>Apply\<close> left with
  one \<open>Add\<close> on top, under the display name and the validator name of the filter error
  class \<open>_filter\<close>. The session is arbitrary, so this holds for either value of
  \<open>StopOnError\<close>; \<open>Filtering\<close> never reads the flag.
\<close>

theorem Filtering_stops_at_first_error:
  assumes "hasFiltered v = False" "filterRules v = rs1 @ rule # rs2"
    "applyAll apply rs1 v = Some v1" "apply rule v1 = (Some err, v2)" "fields' rule = f0 # fs"
  shows "Filtering apply v
           = Inr (rs1 @ [rule], False,
                  (AddError filterError filterError (f0 @ '': '' @ err) v2)\<lparr>hasFiltered := True\<rparr>)
         \<and> Errors ((AddError filterError filterError (f0 @ '': '' @ err) v2)\<lparr>hasFiltered := True\<rparr>)
           = Errors_Add (FieldName (trans' v2) filterError) filterError (f0 @ '': '' @ err) (Errors v2)"
  using assms Filtering_loop_stops [OF assms(3) assms(4) assms(5), of rs2]
  by (simp add: Filtering_def IsSuccess_def AddError_def Let_def)

theorem Filtering_stops_at_first_error_witness:
  "Filtering exampleApply filterSession
     = Inr ([nameRule, ageRule], False,
            (AddError filterError filterError ''age: invalid syntax''
               (filterSession\<lparr>filteredData := [''name'' \<mapsto> Val 1]\<rparr>))\<lparr>hasFiltered := True\<rparr>)
   \<and> Filtering exampleApply (filterSession\<lparr>StopOnError := True\<rparr>)
     = Inr ([nameRule, ageRule], False,
            (AddError filterError filterError ''age: invalid syntax''
               (filterSession\<lparr>StopOnError := True, filteredData := [''name'' \<mapsto> Val 1]\<rparr>))
              \<lparr>hasFiltered := True\<rparr>)
   \<and> Errors ((AddError filterError filterError ''age: invalid syntax''
               (filterSession\<lparr>filteredData := [''name'' \<mapsto> Val 1]\<rparr>))\<lparr>hasFiltered := True\<rparr>)
     = [''_filter'' \<mapsto> [''_filter'' \<mapsto> ''age: invalid syntax'']]"
proof -
  let ?v = "filterSession"
  let ?v1 = "filterSession\<lparr>filteredData := [''name'' \<mapsto> Val 1]\<rparr>"
  let ?w = "filterSession\<lparr>StopOnError := True\<rparr>"
  let ?w1 = "filterSession\<lparr>StopOnError := True, filteredData := [''name'' \<mapsto> Val 1]\<rparr>"
  have f: "hasFiltered ?v = False" "hasFiltered ?w = False"
    by (simp_all add: filterSession_def blank_def)
  have r: "filterRules ?v = [nameRule] @ ageRule # [emailRule]"
    "filterRules ?w = [nameRule] @ ageRule # [emailRule]"
    by (simp_all add: filterSession_def)
  have a: "applyAll exampleApply [nameRule] ?v = Some ?v1"
    "applyAll exampleApply [nameRule] ?w = Some ?w1"
    by (simp_all add: exampleApply_def nameRule_def filterSession_def blank_def)
  have e: "exampleApply ageRule ?v1 = (Some ''invalid syntax'', ?v1)"
    "exampleApply ageRule ?w1 = (Some ''invalid syntax'', ?w1)"
    by (simp_all add: exampleApply_def ageRule_def)
  have h: "fields' ageRule = ''age'' # [''years'']"
    by (simp add: ageRule_def)
  have errs: "Errors_Add (FieldName (trans' ?v1) filterError) filterError ''age: invalid syntax''
                (Errors ?v1)
              = [''_filter'' \<mapsto> [''_filter'' \<mapsto> ''age: invalid syntax'']]"
    by (simp add: Errors_Add_def FieldName_def filterError_def filterSession_def blank_def)
  from Filtering_stops_at_first_error [OF f(1) r(1) a(1) e(1) h]
    Filtering_stops_at_first_error [OF f(2) r(2) a(2) e(2) h] errs
  show ?thesis by simp
qed

subsection \<open>The lookup chain\<close>

text \<open>
  Claim C5, as amended. When the data source is nil, \<open>tryGet\<close> reports the key absent
  and consults neither \<open>filteredData\<close> nor \<open>safeData\<close>. When the session has a data
  source, the value is resolved from \<open>filteredData\<close>, then \<open>safeData\<close>, then the
  source's \<open>TryGet\<close>, the first hit being returned (with zero false for the first two).
  \<open>GetWithDefault\<close> returns what the chain found when it exists and is not zero;
  otherwise it returns the default value registered for the key, and the chain's value
  when no default is registered.
\<close>

theorem tryGet_lookup_chain:
  "(data v = None \<longrightarrow> tryGet ops v key = Inr (Nil, False, False))
   \<and> (data v = Some d \<and> filteredData v key = Some x \<longrightarrow> tryGet ops v key = Inr (x, True, False))
   \<and> (data v = Some d \<and> filteredData v key = None \<and> safeData v key = Some y
        \<longrightarrow> tryGet ops v key = Inr (y, True, False))
   \<and> (data v = Some d \<and> filteredData v key = None \<and> safeData v key = None
        \<longrightarrow> tryGet ops v key = Inr (data_TryGet ops d key))
   \<and> (tryGet ops v key = Inr (val, exist, zero) \<and> exist \<and> \<not> zero
        \<longrightarrow> GetWithDefault ops v key = Inr (val, True, False))
   \<and> (tryGet ops v key = Inr (val, exist, zero) \<and> (\<not> exist \<or> zero) \<and> defValues v key = Some defVal
        \<longrightarrow> GetWithDefault ops v key = Inr (defVal, exist, True))
   \<and> (tryGet ops v key = Inr (val, exist, zero) \<and> (\<not> exist \<or> zero) \<and> defValues v key = None
        \<longrightarrow> GetWithDefault ops v key = Inr (val, exist, False))"
  by (auto simp add: tryGet_def GetWithDefault_def callData_def)

theorem tryGet_lookup_chain_witness:
  "tryGet sourceOps ((blank (Some formData) :: session)
       \<lparr>safeData := [''name'' \<mapsto> Val 2], filteredData := [''name'' \<mapsto> Val 1]\<rparr>) ''name''
     = Inr (Val 1, True, False)
   \<and> tryGet sourceOps ((blank (Some formData) :: session)\<lparr>safeData := [''name'' \<mapsto> Val 2]\<rparr>) ''name''
     = Inr (Val 2, True, False)
   \<and> tryGet sourceOps (blank (Some formData) :: session) ''name'' = Inr (Val 7, True, False)
   \<and> tryGet sourceOps ((blank (Some userStruct) :: session)\<lparr>defValues := [''age'' \<mapsto> Val 18]\<rparr>) ''age''
     = Inr (Val 0, True, True)
   \<and> GetWithDefault sourceOps
       ((blank (Some userStruct) :: session)\<lparr>defValues := [''age'' \<mapsto> Val 18]\<rparr>) ''age''
     = Inr (Val 18, True, True)
   \<and> GetWithDefault sourceOps
       ((blank (Some userStruct) :: session)\<lparr>defValues := [''age'' \<mapsto> Val 18]\<rparr>) ''name''
     = Inr (Val 7, True, False)"
proof -
  let ?a = "(blank (Some formData) :: session)
       \<lparr>safeData := [''name'' \<mapsto> Val 2], filteredData := [''name'' \<mapsto> Val 1]\<rparr>"
  let ?b = "(blank (Some formData) :: session)\<lparr>safeData := [''name'' \<mapsto> Val 2]\<rparr>"
  let ?c = "blank (Some formData) :: session"
  let ?d = "(blank (Some userStruct) :: session)\<lparr>defValues := [''age'' \<mapsto> Val 18]\<rparr>"
  have a: "data ?a = Some formData \<and> filteredData ?a ''name'' = Some (Val 1)"
    by (simp add: blank_def)
  have b: "data ?b = Some formData \<and> filteredData ?b ''name'' = None
           \<and> safeData ?b ''name'' = Some (Val 2)"
    by (simp add: blank_def)
  have c: "data ?c = Some formData \<and> filteredData ?c ''name'' = None \<and> safeData ?c ''name'' = None"
    by (simp add: blank_def)
  have c': "data_TryGet sourceOps formData ''name'' = (Val 7, True, False)"
    by (simp add: sourceOps_def formData_def)
  have d: "data ?d = Some userStruct \<and> filteredData ?d ''age'' = None \<and> safeData ?d ''age'' = None
           \<and> filteredData ?d ''name'' = None \<and> safeData ?d ''name'' = None
           \<and> defValues ?d ''age'' = Some (Val 18)"
    by (simp add: blank_def)
  have d': "data_TryGet sourceOps userStruct ''age'' = (Val 0, True, True)"
    "data_TryGet sourceOps userStruct ''name'' = (Val 7, True, False)"
    by (simp_all add: sourceOps_def userStruct_def)
  have t1: "tryGet sourceOps ?a ''name'' = Inr (Val 1, True, False)"
    using a tryGet_lookup_chain [where v = ?a and key = "''name''" and d = formData
        and x = "Val 1" and ops = sourceOps]
    by blast
  have t2: "tryGet sourceOps ?b ''name'' = Inr (Val 2, True, False)"
    using b tryGet_lookup_chain [where v = ?b and key = "''name''" and d = formData
        and y = "Val 2" and ops = sourceOps]
    by blast
  have t3: "tryGet sourceOps ?c ''name'' = Inr (Val 7, True, False)"
    using c c' tryGet_lookup_chain [where v = ?c and key = "''name''" and d = formData
        and ops = sourceOps]
    by simp
  have t4: "tryGet sourceOps ?d ''age'' = Inr (Val 0, True, True)"
    using d d'(1) tryGet_lookup_chain [where v = ?d and key = "''age''" and d = userStruct
        and ops = sourceOps]
    by simp
  have t4b: "tryGet sourceOps ?d ''name'' = Inr (Val 7, True, False)"
    using d d'(2) tryGet_lookup_chain [where v = ?d and key = "''name''" and d = userStruct
        and ops = sourceOps]
    by simp
  have t5: "GetWithDefault sourceOps ?d ''age'' = Inr (Val 18, True, True)"
    using t4 d tryGet_lookup_chain [where v = ?d and key = "''age''" and ops = sourceOps
        and val = "Val 0" and exist = True and zero = True and defVal = "Val 18"]
    by blast
  have t6: "GetWithDefault sourceOps ?d ''name'' = Inr (Val 7, True, False)"
    using t4b tryGet_lookup_chain [where v = ?d and key = "''name''" and ops = sourceOps
        and val = "Val 7" and exist = True and zero = False]
    by blast
  from t1 t2 t3 t4 t5 t6 show ?thesis by blast
qed

text \<open>
  Claim C5 as stated fails for a session without a data source: \<open>filteredData\<close> holds
  a value for the key, and \<open>tryGet\<close> does not return it.
\<close>

theorem tryGet_nil_data_counterexample:
  "filteredData ((blank None :: session)\<lparr>filteredData := [''name'' \<mapsto> Val 7]\<rparr>) ''name''
     = Some (Val 7)
   \<and> tryGet sourceOps ((blank None :: session)\<lparr>filteredData := [''name'' \<mapsto> Val 7]\<rparr>) ''name''
     \<noteq> Inr (Val 7, True, False)
   \<and> tryGet sourceOps ((blank None :: session)\<lparr>filteredData := [''name'' \<mapsto> Val 7]\<rparr>) ''name''
     = Inr (Nil, False, False)"
  by (simp add: tryGet_def blank_def)

subsection \<open>Scene membership\<close>



lemma Split_nonempty: "Split s c \<noteq> []"
  by (induction s) (auto split: list.splits)

lemma Join_Split: "Join (Split s c) [c] = s"
proof (induction s)
  case Nil
  then show ?case by simp
next
  case (Cons a s)
  obtain w ws where w: "Split s c = w # ws"
    using Split_nonempty [of s c] by (cases "Split s c") auto
  with Cons show ?case by (cases ws) auto
qed

lemma Join_append:
  "xs \<noteq> [] \<Longrightarrow> ys \<noteq> [] \<Longrightarrow> Join (xs @ ys) sep = Join xs sep @ sep @ Join ys sep"
proof (induction xs sep rule: Join.induct)
  case (1 sep)
  then show ?case by simp
next
  case (2 x sep)
  then show ?case by (cases ys) auto
next
  case (3 x y zs sep)
  then show ?case by simp
qed

text \<open>
  A non-empty proper prefix of the segments of a field, joined, is the text of the field
  before one of its dots: a dotted ancestor.
\<close>

lemma ancestor_is_dotted_prefix:
  assumes "strict_prefix p (Split field CHR ''.'')" "p \<noteq> []"
  shows "\<exists>rest. field = Join p ''.'' @ ''.'' @ rest"
proof -
  from assms(1) obtain z zs where e: "Split field CHR ''.'' = p @ z # zs"
    by (auto elim: strict_prefixE')
  have "field = Join (p @ z # zs) ''.''" using Join_Split [of field "CHR ''.''"] e by simp
  also have "\<dots> = Join p ''.'' @ ''.'' @ Join (z # zs) ''.''"
    using assms(2) by (simp add: Join_append)
  finally show ?thesis by blast
qed

lemma fold_scene_fields_dom:
  "dom (fold (\<lambda>field m. m(field \<mapsto> (1::uint8))) fs m0) = dom m0 \<union> set fs"
  by (induction fs arbitrary: m0) auto

text \<open>The keys of the scene field map are the fields listed for the active scene.\<close>

lemma sceneFieldMap_dom:
  "dom (sceneFieldMap v) = (if scene v = [] then {} else set (SceneFields v))"
  by (simp add: sceneFieldMap_def SceneFields_def fold_scene_fields_dom split: option.splits)



subsection \<open>Resolving a validator\<close>

text \<open>
  Claim C6. A name found in the session's own table is answered from it; otherwise a
  name found in the global table is answered from that; otherwise, for a struct-backed
  data source whose method lookup finds the name, the meta built from the method is
  returned and stored in the session's tables, so that resolving the name again in the
  session so left answers the same meta from the session's own table and changes
  nothing. When both tables miss and the source is not struct-backed, or has no such
  method, the result is nil and the session is unchanged. A validator registered with
  \<open>AddValidator\<close> is the one the session resolves, whatever the global table holds
  under that name.
\<close>

theorem validatorMeta_resolution_order:
  "(validatorMetas v name = Some fm \<longrightarrow> validatorMeta G nfm ops v name = Inr (Some fm, v))
   \<and> (validatorMetas v name = None \<and> G name = Some gm
        \<longrightarrow> validatorMeta G nfm ops v name = Inr (Some gm, v))
   \<and> (validatorMetas v name = None \<and> G name = None \<and> data v = Some d
        \<and> data_Type ops d = sourceStruct \<and> data_FuncValue ops d name = Some fv
        \<longrightarrow> validatorMeta G nfm ops v name
              = Inr (Some (nfm name False fv),
                     v\<lparr>validators := (validators v)(name \<mapsto> validatorTypeCustom),
                       validatorMetas := (validatorMetas v)(name \<mapsto> nfm name False fv)\<rparr>)
            \<and> validatorMeta G nfm ops
                  (v\<lparr>validators := (validators v)(name \<mapsto> validatorTypeCustom),
                     validatorMetas := (validatorMetas v)(name \<mapsto> nfm name False fv)\<rparr>) name
              = Inr (Some (nfm name False fv),
                     v\<lparr>validators := (validators v)(name \<mapsto> validatorTypeCustom),
                       validatorMetas := (validatorMetas v)(name \<mapsto> nfm name False fv)\<rparr>))
   \<and> (validatorMetas v name = None \<and> G name = None \<and> data v = Some d
        \<and> (data_Type ops d \<noteq> sourceStruct \<or> data_FuncValue ops d name = None)
        \<longrightarrow> validatorMeta G nfm ops v name = Inr (None, v))
   \<and> (AddValidator chk nfm name checkFunc v = Inr v1
        \<longrightarrow> (\<exists>fv. chk name checkFunc = Some fv
                 \<and> validatorMeta G nfm ops v1 name = Inr (Some (nfm name False fv), v1)))"
  by (auto simp add: validatorMeta_def AddValidator_def callData_def Let_def split: option.splits)

theorem validatorMeta_resolution_order_witness:
  "validatorMeta (globalMetas exampleEnv) (newFuncMeta exampleEnv) sourceOps
       (blank (Some userStruct) :: session) ''required''
     = Inr (Some (''required'', True, 1), blank (Some userStruct))
   \<and> validatorMeta (globalMetas exampleEnv) (newFuncMeta exampleEnv) sourceOps
       (blank (Some userStruct) :: session) ''IsAdult''
     = Inr (Some (''IsAdult'', False, 42),
            (blank (Some userStruct))
              \<lparr>validators := [''IsAdult'' \<mapsto> validatorTypeCustom],
               validatorMetas := [''IsAdult'' \<mapsto> (''IsAdult'', False, 42)]\<rparr>)
   \<and> validatorMeta (globalMetas exampleEnv) (newFuncMeta exampleEnv) sourceOps
       ((blank (Some userStruct) :: session)
          \<lparr>validators := [''IsAdult'' \<mapsto> validatorTypeCustom],
           validatorMetas := [''IsAdult'' \<mapsto> (''IsAdult'', False, 42)]\<rparr>) ''IsAdult''
     = Inr (Some (''IsAdult'', False, 42),
            (blank (Some userStruct))
              \<lparr>validators := [''IsAdult'' \<mapsto> validatorTypeCustom],
               validatorMetas := [''IsAdult'' \<mapsto> (''IsAdult'', False, 42)]\<rparr>)
   \<and> validatorMeta (globalMetas exampleEnv) (newFuncMeta exampleEnv) sourceOps
       (blank (Some formData) :: session) ''IsAdult''
     = Inr (None, blank (Some formData))
   \<and> validatorMeta (globalMetas exampleEnv) (newFuncMeta exampleEnv) sourceOps
       ((blank (Some formData) :: session)
          \<lparr>validators := [''required'' \<mapsto> validatorTypeCustom],
           validatorMetas := [''required'' \<mapsto> (''required'', False, 9)]\<rparr>) ''required''
     = Inr (Some (''required'', False, 9),
            (blank (Some formData))
              \<lparr>validators := [''required'' \<mapsto> validatorTypeCustom],
               validatorMetas := [''required'' \<mapsto> (''required'', False, 9)]\<rparr>)"
proof -
  let ?G = "globalMetas exampleEnv"
  let ?n = "newFuncMeta exampleEnv"
  let ?u = "blank (Some userStruct) :: session"
  let ?u1 = "?u\<lparr>validators := [''IsAdult'' \<mapsto> validatorTypeCustom],
               validatorMetas := [''IsAdult'' \<mapsto> (''IsAdult'', False, 42)]\<rparr>"
  let ?f = "blank (Some formData) :: session"
  let ?f1 = "?f\<lparr>validators := [''required'' \<mapsto> validatorTypeCustom],
               validatorMetas := [''required'' \<mapsto> (''required'', False, 9)]\<rparr>"
  have g: "validatorMetas ?u ''required'' = None \<and> ?G ''required'' = Some (''required'', True, 1)"
    by (simp add: blank_def exampleEnv_def)
  have m: "validatorMetas ?u ''IsAdult'' = None \<and> ?G ''IsAdult'' = None
           \<and> data ?u = Some userStruct \<and> data_Type sourceOps userStruct = sourceStruct
           \<and> data_FuncValue sourceOps userStruct ''IsAdult'' = Some 42"
    by (simp add: blank_def exampleEnv_def sourceOps_def userStruct_def)
  have mv: "?n ''IsAdult'' False 42 = (''IsAdult'', False, 42)"
    "?u\<lparr>validators := (validators ?u)(''IsAdult'' \<mapsto> validatorTypeCustom),
        validatorMetas := (validatorMetas ?u)(''IsAdult'' \<mapsto> (''IsAdult'', False, 42))\<rparr> = ?u1"
    by (simp_all add: exampleEnv_def blank_def)
  have x: "validatorMetas ?f ''IsAdult'' = None \<and> ?G ''IsAdult'' = None
           \<and> data ?f = Some formData \<and> data_Type sourceOps formData \<noteq> sourceStruct"
    by (simp add: blank_def exampleEnv_def sourceOps_def formData_def)
  have r: "AddValidator (checkValidatorFunc exampleEnv) ?n ''required'' 9 ?f = Inr ?f1"
    by (simp add: AddValidator_def exampleEnv_def blank_def)
  have c: "checkValidatorFunc exampleEnv ''required'' 9 = Some 9"
    "?n ''required'' False 9 = (''required'', False, 9)"
    by (simp_all add: exampleEnv_def)
  have t1: "validatorMeta ?G ?n sourceOps ?u ''required''
              = Inr (Some (''required'', True, 1), ?u)"
    by (rule validatorMeta_resolution_order [THEN conjunct2, THEN conjunct1, THEN mp]) (rule g)
  have "validatorMeta ?G ?n sourceOps ?u ''IsAdult''
          = Inr (Some (?n ''IsAdult'' False 42),
                 ?u\<lparr>validators := (validators ?u)(''IsAdult'' \<mapsto> validatorTypeCustom),
                    validatorMetas := (validatorMetas ?u)(''IsAdult'' \<mapsto> ?n ''IsAdult'' False 42)\<rparr>)
         \<and> validatorMeta ?G ?n sourceOps
              (?u\<lparr>validators := (validators ?u)(''IsAdult'' \<mapsto> validatorTypeCustom),
                  validatorMetas := (validatorMetas ?u)(''IsAdult'' \<mapsto> ?n ''IsAdult'' False 42)\<rparr>)
              ''IsAdult''
          = Inr (Some (?n ''IsAdult'' False 42),
                 ?u\<lparr>validators := (validators ?u)(''IsAdult'' \<mapsto> validatorTypeCustom),
                    validatorMetas := (validatorMetas ?u)(''IsAdult'' \<mapsto> ?n ''IsAdult'' False 42)\<rparr>)"
    by (rule validatorMeta_resolution_order
          [THEN conjunct2, THEN conjunct2, THEN conjunct1, THEN mp]) (rule m)
  then have t2: "validatorMeta ?G ?n sourceOps ?u ''IsAdult''
                   = Inr (Some (''IsAdult'', False, 42), ?u1)
                 \<and> validatorMeta ?G ?n sourceOps ?u1 ''IsAdult''
                   = Inr (Some (''IsAdult'', False, 42), ?u1)"
    by (simp only: mv)
  have x': "validatorMetas ?f ''IsAdult'' = None \<and> ?G ''IsAdult'' = None
            \<and> data ?f = Some formData
            \<and> (data_Type sourceOps formData \<noteq> sourceStruct
                \<or> data_FuncValue sourceOps formData ''IsAdult'' = None)"
    using x by simp
  have t3: "validatorMeta ?G ?n sourceOps ?f ''IsAdult'' = Inr (None, ?f)"
    by (rule validatorMeta_resolution_order
          [THEN conjunct2, THEN conjunct2, THEN conjunct2, THEN conjunct1, THEN mp]) (rule x')
  have "\<exists>fv. checkValidatorFunc exampleEnv ''required'' 9 = Some fv
             \<and> validatorMeta ?G ?n sourceOps ?f1 ''required''
                 = Inr (Some (?n ''required'' False fv), ?f1)"
    by (rule validatorMeta_resolution_order
          [THEN conjunct2, THEN conjunct2, THEN conjunct2, THEN conjunct2, THEN mp]) (rule r)
  then have t4: "validatorMeta ?G ?n sourceOps ?f1 ''required''
                   = Inr (Some (''required'', False, 9), ?f1)"
    using c by auto
  show ?thesis
    using t1 t2 t3 t4 by (intro conjI) (erule conjunct1 conjunct2 | assumption)+
qed

subsection \<open>The fail flag\<close>

lemma AddError_keeps: "hasEntry v f val \<Longrightarrow> hasEntry (AddError f1 val1 msg v) f val"
  by (auto simp add: hasEntry_def AddError_def Let_def Errors_Add_def split: option.splits)

lemma run_keeps:
  assumes "act \<noteq> DoResetResult" "act \<noteq> DoReset" "run E act v = Inr v1" "hasEntry v f val"
  shows "hasEntry v1 f val"
proof (cases act)
  case (DoAddError x1 x2 x3)
  then show ?thesis using assms AddError_keeps by auto
next
  case (DoAddErrorf x1 x2)
  then show ?thesis using assms AddError_keeps by (auto simp add: AddErrorf_def)
next
  case (DoWithError e)
  then show ?thesis using assms AddError_keeps by (cases e) (auto simp add: WithError_def)
next
  case (DoSetScene ss)
  then show ?thesis using assms by (cases ss) (auto simp add: SetScene_def AtScene_def hasEntry_def)
next
  case (DoAddValidator n c)
  then show ?thesis using assms
    by (auto simp add: AddValidator_def hasEntry_def split: option.splits)
next
  case (DoValidatorMeta n)
  then show ?thesis using assms
    by (auto simp add: validatorMeta_def callData_def Let_def hasEntry_def
        split: option.splits if_splits)
next
  case (DoSet f1 x)
  then show ?thesis using assms
    by (auto simp add: Set_def callData_def hasEntry_def split: option.splits if_splits prod.splits)
next
  case (DoUpdateValue f1 x)
  then show ?thesis using assms
    by (auto simp add: updateValue_def callData_def hasEntry_def
        split: option.splits if_splits prod.splits)
qed (use assms in \<open>auto simp add: WithTrans_def WithScenes_def AtScene_def WithTranslates_def
      WithMessages_def SetDefValue_def hasEntry_def\<close>)

lemma runAll_keeps:
  assumes "DoResetResult \<notin> set acts" "DoReset \<notin> set acts" "runAll E acts v = Inr v1"
    "hasEntry v f val"
  shows "hasEntry v1 f val"
  using assms
proof (induction acts arbitrary: v)
  case Nil
  then show ?case by simp
next
  case (Cons act acts)
  from Cons.prems obtain w where w: "run E act v = Inr w" "runAll E acts w = Inr v1"
    by (auto split: sum.splits)
  have "act \<noteq> DoResetResult" "act \<noteq> DoReset" using Cons.prems by auto
  then have "hasEntry w f val" using run_keeps w(1) Cons.prems(4) by blast
  then show ?case using Cons.IH w(2) Cons.prems by auto
qed

text \<open>
  Claim C7. After \<open>AddError\<close> the flag \<open>hasError\<close> is true, \<open>IsOK\<close> is false and
  \<open>IsFail\<close> is true, and the message is stored for the validator under the display name
  that the translator gives the field. After any sequence of the calls of
  \<open>validation.go\<close> that contains neither \<open>ResetResult\<close> nor \<open>Reset\<close> and returns, the
  flag is still true and the entry is still there (a later \<open>AddError\<close> for the same
  field and validator replaces its message). \<open>ResetResult\<close> and \<open>Reset\<close> clear both.
\<close>

theorem AddError_sets_fail_flag:
  "hasError (AddError field validator msg v) = True
   \<and> IsOK (AddError field validator msg v) = False
   \<and> IsFail (AddError field validator msg v) = True
   \<and> (\<exists>ms. Errors (AddError field validator msg v) (FieldName (trans' v) field) = Some ms
          \<and> ms validator = Some msg)
   \<and> (DoResetResult \<notin> set acts \<and> DoReset \<notin> set acts
        \<and> runAll E acts (AddError field validator msg v) = Inr v1
        \<longrightarrow> hasError v1 = True
            \<and> (\<exists>ms m. Errors v1 (FieldName (trans' v) field) = Some ms \<and> ms validator = Some m))
   \<and> hasError (ResetResult (AddError field validator msg v)) = False
   \<and> Errors (ResetResult (AddError field validator msg v)) = Map.empty
   \<and> hasError (Reset (AddError field validator msg v)) = False
   \<and> Errors (Reset (AddError field validator msg v)) = Map.empty"
proof -
  let ?w = "AddError field validator msg v"
  have flag: "hasError ?w = True" by (simp add: AddError_def Let_def)
  have stored: "\<exists>ms. Errors ?w (FieldName (trans' v) field) = Some ms \<and> ms validator = Some msg"
    by (simp add: AddError_def Let_def Errors_Add_def split: option.splits)
  have e: "hasEntry ?w (FieldName (trans' v) field) validator"
    using flag stored by (auto simp add: hasEntry_def)
  have kept: "DoResetResult \<notin> set acts \<and> DoReset \<notin> set acts \<and> runAll E acts ?w = Inr v1
        \<longrightarrow> hasError v1 = True
            \<and> (\<exists>ms m. Errors v1 (FieldName (trans' v) field) = Some ms \<and> ms validator = Some m)"
    using runAll_keeps [of acts E ?w v1, OF _ _ _ e] by (auto simp add: hasEntry_def)
  have cleared: "hasError (ResetResult ?w) = False \<and> Errors (ResetResult ?w) = Map.empty
     \<and> hasError (Reset ?w) = False \<and> Errors (Reset ?w) = Map.empty"
    by (simp add: Reset_def resetRules_def ResetResult_def)
  from flag stored kept cleared show ?thesis
    by (simp add: IsOK_def IsFail_def)
qed

theorem AddError_sets_fail_flag_witness:
  "hasError (AddError ''name'' ''required'' ''is required''
       ((blank (Some formData) :: session)
          \<lparr>trans' := \<lparr>labelMap = [''name'' \<mapsto> ''Username''], messages = Map.empty\<rparr>\<rparr>)) = True
   \<and> Errors (AddError ''name'' ''required'' ''is required''
       ((blank (Some formData) :: session)
          \<lparr>trans' := \<lparr>labelMap = [''name'' \<mapsto> ''Username''], messages = Map.empty\<rparr>\<rparr>))
     = [''Username'' \<mapsto> [''required'' \<mapsto> ''is required'']]
   \<and> (case runAll exampleEnv
             [DoAtScene ''update'', DoAddError ''age'' ''min'' ''too small'',
              DoSetDefValue ''age'' (Val 18), DoSet ''name'' (Val 3)]
             (AddError ''name'' ''required'' ''is required''
                ((blank (Some formData) :: session)
                   \<lparr>trans' := \<lparr>labelMap = [''name'' \<mapsto> ''Username''], messages = Map.empty\<rparr>\<rparr>)) of
         Inl p \<Rightarrow> False
       | Inr v1 \<Rightarrow> hasError v1 = True
                  \<and> (\<exists>ms m. Errors v1 ''Username'' = Some ms \<and> ms ''required'' = Some m))"
proof -
  let ?v = "(blank (Some formData) :: session)
              \<lparr>trans' := \<lparr>labelMap = [''name'' \<mapsto> ''Username''], messages = Map.empty\<rparr>\<rparr>"
  let ?acts = "[DoAtScene ''update'', DoAddError ''age'' ''min'' ''too small'',
                DoSetDefValue ''age'' (Val 18), DoSet ''name'' (Val 3)] :: (nat, nat) action list"
  note T = AddError_sets_fail_flag [of "''name''" "''required''" "''is required''" ?v ?acts]
  have n: "FieldName (trans' ?v) ''name'' = ''Username''"
    by (simp add: FieldName_def)
  have acts: "DoResetResult \<notin> set ?acts \<and> DoReset \<notin> set ?acts"
    by simp
  have errs: "Errors (AddError ''name'' ''required'' ''is required'' ?v)
                = [''Username'' \<mapsto> [''required'' \<mapsto> ''is required'']]"
    by (simp add: AddError_def Let_def Errors_Add_def FieldName_def blank_def)
  have "\<exists>v1. runAll exampleEnv ?acts (AddError ''name'' ''required'' ''is required'' ?v) = Inr v1"
    by (simp add: AtScene_def SetDefValue_def Set_def callData_def blank_def AddError_def
        Let_def exampleEnv_def sourceOps_def formData_def)
  then obtain v1 where
    r: "runAll exampleEnv ?acts (AddError ''name'' ''required'' ''is required'' ?v) = Inr v1"
    by blast
  have "hasError v1 = True
        \<and> (\<exists>ms m. Errors v1 (FieldName (trans' ?v) ''name'') = Some ms \<and> ms ''required'' = Some m)"
    using T [of exampleEnv v1, THEN conjunct2, THEN conjunct2, THEN conjunct2, THEN conjunct2,
        THEN conjunct1] acts r
    by blast
  then have kept: "hasError v1 = True
        \<and> (\<exists>ms m. Errors v1 ''Username'' = Some ms \<and> ms ''required'' = Some m)"
    by (simp only: n)
  have flag: "hasError (AddError ''name'' ''required'' ''is required'' ?v) = True"
    using T [THEN conjunct1] .
  show ?thesis
    using flag errs kept by (simp only: r sum.case)
qed

section \<open>Properties of the JSON input adapter\<close>

text \<open>
  What \<open>Unmarshal\<close> returns on the paths that end before the decoder runs, and the
  status of each branch of its switch over a decoding error.
\<close>

lemma Unmarshal_before_decoding:
  "fst (Unmarshal P D None None) = StatusUnsupportedMediaType
   \<and> fst (Unmarshal P D (Some r) (Some bs)) = StatusUnsupportedMediaType
   \<and> (Body r = Inl e \<longrightarrow> fst (Unmarshal P D (Some r) None) = StatusBadRequest)
   \<and> (Body r = Inr body \<and> \<not> HasContentType P r ''application/json''
        \<longrightarrow> fst (Unmarshal P D (Some r) None) = StatusUnsupportedMediaType)
   \<and> (Body r = Inr body \<and> HasContentType P r ''application/json''
        \<longrightarrow> Unmarshal P D (Some r) None = Unmarshal_decode D body)
   \<and> Unmarshal P D None (Some bs) = Unmarshal_decode D bs"
  by (simp add: Unmarshal_def)

lemma decodeFailure_status:
  "fst (decodeFailure err) =
     (if asSyntaxError err \<noteq> None \<or> isUnexpectedEOF err \<or> asUnmarshalTypeError err \<noteq> None
         \<or> HasPrefix (Error err) ''json: unknown field'' \<or> isEOF err
      then StatusBadRequest
      else if Error err = ''http: request body too large'' then StatusRequestEntityTooLarge
      else StatusInternalServerError)"
  by (auto simp add: decodeFailure_def split: option.splits)

text \<open>
  Claim C9, where the code departs from it. A request whose body cannot be read
  because it is over the size limit (the read fails with
  \<open>http: request body too large\<close>) is answered with status 400 and the message
  \<open>error reading request body\<close>, whatever the media type parser and the decoder are:
  the body is read in full before the decoder is built, so the branch of the switch
  that answers 413 is not reached by it.
\<close>

theorem Unmarshal_oversized_body:
  "Unmarshal ParseMediaType Decode
     (Some \<lparr>Content_type = ''application/json'', Body = Inl ''http: request body too large''\<rparr>) None
   = (StatusBadRequest, Some ''error reading request body'')
   \<and> StatusBadRequest \<noteq> StatusRequestEntityTooLarge"
  by (simp add: Unmarshal_def StatusBadRequest_def StatusRequestEntityTooLarge_def)

end
